theory Spec2Isabelle
  imports Main "HOL-Library.Word"
begin

unbundle bit_operations_syntax

section \<open>C arithmetic used by zone.c\<close>

text \<open>
  Variables of type \<open>int\<close> are modelled as unbounded integers: every path of zone.c
  that is modelled here guards its arithmetic (range checks on tile codes and
  coordinates) before it computes, so no 32-bit overflow is reachable on them.
  A value assigned to a \<open>short\<close> variable is reduced to 16 bits, two's complement.
  Division and remainder truncate towards zero, as C99 prescribes.
\<close>

definition sshort :: "int \<Rightarrow> int" where
  "sshort v = (v + 32768) mod 65536 - 32768"

definition cdiv :: "int \<Rightarrow> int \<Rightarrow> int" where
  "cdiv a b = sgn a * sgn b * (\<bar>a\<bar> div \<bar>b\<bar>)"

definition cmod :: "int \<Rightarrow> int \<Rightarrow> int" where
  "cmod a b = a - b * cdiv a b"

section \<open>Constants\<close>

text \<open>
  Constants whose value zone.c states itself: the zone bases (comment at the head of
  the file and in \<open>calcResPop\<close>) and the cache capacity.
\<close>

definition RZB :: int where "RZB = 265"
definition CZB :: int where "CZB = 436"
definition IZB :: int where "IZB = 625"
definition RESBASE :: int where "RESBASE = 240"
definition POP_CACHE_SIZE :: int where "POP_CACHE_SIZE = 512"

text \<open>
  The remaining constants come from sim.h and tiles.h, which are not part of the
  sources at hand. They are parameters of the model: every function takes the header
  \<open>H\<close>, and a theorem that needs a fact about a header value states it as a
  hypothesis. Tile codes and grid sizes are integers; the flag masks of a map cell are
  16-bit words (a cell is a \<open>short\<close>). \<open>PoliceCell\<close> is the conversion to the element
  type of the police and fire influence grids, whose declaration is in sim.h as well.
  \<open>DifficultyMeltdownRisk\<close> is the table of the same name.
\<close>

record hdr =
  COMBASE :: int
  INDBASE :: int
  LASTZONE :: int
  COMCLR :: int
  INDCLR :: int
  HOSPITAL :: int
  CHURCH :: int
  FREEZ :: int
  POWERPLANT :: int
  NUCLEAR :: int
  STADIUM :: int
  POLICESTATION :: int
  FIRESTATION :: int
  DIRT :: int
  ROADS :: int
  LASTRAIL :: int
  ROADBASE :: int
  LASTROAD :: int
  BSIZE :: int
  WORLD_X :: int
  WORLD_Y :: int
  LOMASK :: "16 word"
  ZONEBIT :: "16 word"
  POWERBIT :: "16 word"
  BULLBIT :: "16 word"
  BURNBIT :: "16 word"
  CONDBIT :: "16 word"
  BNCNBIT :: "16 word"
  PoliceCell :: "int \<Rightarrow> int"
  DifficultyMeltdownRisk :: "int \<Rightarrow> int"

section \<open>Simulation state\<close>

text \<open>
  The globals zone.c reads and writes, as one record. \<open>Map s y x\<close> is the cell
  \<open>Map[y][x]\<close>; the coarse grids are indexed the same way. The three caches are the
  static arrays of \<open>POP_CACHE_SIZE\<close> shorts. \<open>rand_src\<close> is the sequence of values
  \<open>rand()\<close> will return and \<open>rand_pos\<close> the number of draws made so far.
  \<open>dbglog\<close> collects the format strings handed to \<open>addDebugLog\<close> and
  \<open>addGameLog\<close>. \<open>calls\<close> is an observer that no function reads: each handler
  appends its own invocation on entry, so that "handler f is (not) invoked" can be
  stated.
\<close>

datatype call =
    CallResOut int int int int
  | CallResIn int int
  | CallComOut int int int
  | CallIndOut int int int
  | CallIndIn int int
  | CallBuildHouse int int int
  | CallResPlop int int int int
  | CallIndPlop int int int
  | CallZonePlop int int int

type_synonym grid = "int \<Rightarrow> int \<Rightarrow> 16 word"
type_synonym coarse = "int \<Rightarrow> int \<Rightarrow> int"

record sim =
  Map :: grid
  SMapX :: int
  SMapY :: int
  CityTime :: int
  RZPop :: int
  CZPop :: int
  IZPop :: int
  ResPop :: int
  ComPop :: int
  IndPop :: int
  NuclearPop :: int
  LandValueMem :: coarse
  PollutionMem :: coarse
  PopDensity :: coarse
  PoliceMap :: coarse
  FireStMap :: coarse
  PoliceEffect :: int
  FireEffect :: int
  DisastersEnabled :: int
  GameLevel :: int
  resPopCache :: "int list"
  comPopCache :: "int list"
  indPopCache :: "int list"
  cacheInitialized :: int
  rand_src :: "nat \<Rightarrow> nat"
  rand_pos :: nat
  dbglog :: "string list"
  calls :: "call list"

definition addDebugLog :: "string \<Rightarrow> sim \<Rightarrow> sim" where
  "addDebugLog msg s = s\<lparr>dbglog := dbglog s @ [msg]\<rparr>"

definition enter :: "call \<Rightarrow> sim \<Rightarrow> sim" where
  "enter c s = s\<lparr>calls := calls s @ [c]\<rparr>"

text \<open>\<open>ZoneRandom(rng)\<close> is \<open>rand() % rng\<close>; \<open>rand()\<close> is never negative.\<close>

definition ZoneRandom :: "int \<Rightarrow> sim \<Rightarrow> int \<times> sim" where
  "ZoneRandom rng s =
     (cmod (int (rand_src s (rand_pos s))) rng, s\<lparr>rand_pos := rand_pos s + 1\<rparr>)"

section \<open>Population of a zone tile (calcResPop, calcComPop, calcIndPop)\<close>

definition calcResPop :: "hdr \<Rightarrow> int \<Rightarrow> sim \<Rightarrow> int \<times> sim" where
  "calcResPop H zone s =
     (if zone < RESBASE \<or> zone > LASTZONE H then (0, s)
      else
        let index = zone - RESBASE in
        if 0 \<le> index \<and> index < POP_CACHE_SIZE \<and> cacheInitialized s \<noteq> 0
           \<and> resPopCache s ! nat index \<noteq> 0
        then (resPopCache s ! nat index, s)
        else if zone < RZB \<or> zone - RZB > 32767 then (0, s)
        else
          let CzDen = sshort (cmod (cdiv (zone - RZB) 9) 4);
              result = push_bit 3 CzDen + 16
          in if result < 0 \<or> result > 1000 then (0, s)
             else if 0 \<le> index \<and> index < POP_CACHE_SIZE
             then (result, s\<lparr>resPopCache := (resPopCache s)[nat index := sshort result],
                               cacheInitialized := 1\<rparr>)
             else (result, s))"

definition calcComPop :: "hdr \<Rightarrow> int \<Rightarrow> sim \<Rightarrow> int \<times> sim" where
  "calcComPop H zone s =
     (if zone < COMBASE H \<or> zone > LASTZONE H then (0, s)
      else if zone = COMCLR H then (0, s)
      else
        let index = zone - RESBASE in
        if 0 \<le> index \<and> index < POP_CACHE_SIZE \<and> cacheInitialized s \<noteq> 0
           \<and> comPopCache s ! nat index \<noteq> 0
        then (comPopCache s ! nat index, s)
        else if zone - COMBASE H > 32767 then (0, s)
        else
          let CzDen = sshort (cmod (cdiv (zone - COMBASE H) 9) 5 + 1);
              result = CzDen
          in if result < 0 \<or> result > 100 then (0, s)
             else if 0 \<le> index \<and> index < POP_CACHE_SIZE
             then (result, s\<lparr>comPopCache := (comPopCache s)[nat index := sshort result]\<rparr>)
             else (result, s))"

definition calcIndPop :: "hdr \<Rightarrow> int \<Rightarrow> sim \<Rightarrow> int \<times> sim" where
  "calcIndPop H zone s =
     (if zone < INDBASE H \<or> zone > LASTZONE H then (0, s)
      else if zone = INDCLR H then (0, s)
      else
        let index = zone - RESBASE in
        if 0 \<le> index \<and> index < POP_CACHE_SIZE \<and> cacheInitialized s \<noteq> 0
           \<and> indPopCache s ! nat index \<noteq> 0
        then (indPopCache s ! nat index, s)
        else if zone - INDBASE H > 32767 then (0, s)
        else
          let CzDen = sshort (cmod (cdiv (zone - INDBASE H) 9) 4 + 1);
              result = CzDen
          in if result < 0 \<or> result > 50 then (0, s)
             else if 0 \<le> index \<and> index < POP_CACHE_SIZE
             then (result, s\<lparr>indPopCache := (indPopCache s)[nat index := sshort result]\<rparr>)
             else (result, s))"

text \<open>
  The computation each of the three functions performs when its cache is left out.
  These are the reference the cached functions are compared with.
\<close>

definition resPop_uncached :: "hdr \<Rightarrow> int \<Rightarrow> int" where
  "resPop_uncached H zone =
     (if zone < RESBASE \<or> zone > LASTZONE H then 0
      else if zone < RZB \<or> zone - RZB > 32767 then 0
      else
        let CzDen = sshort (cmod (cdiv (zone - RZB) 9) 4);
            result = push_bit 3 CzDen + 16
        in if result < 0 \<or> result > 1000 then 0 else result)"

definition comPop_uncached :: "hdr \<Rightarrow> int \<Rightarrow> int" where
  "comPop_uncached H zone =
     (if zone < COMBASE H \<or> zone > LASTZONE H then 0
      else if zone = COMCLR H then 0
      else if zone - COMBASE H > 32767 then 0
      else
        let CzDen = sshort (cmod (cdiv (zone - COMBASE H) 9) 5 + 1);
            result = CzDen
        in if result < 0 \<or> result > 100 then 0 else result)"

definition indPop_uncached :: "hdr \<Rightarrow> int \<Rightarrow> int" where
  "indPop_uncached H zone =
     (if zone < INDBASE H \<or> zone > LASTZONE H then 0
      else if zone = INDCLR H then 0
      else if zone - INDBASE H > 32767 then 0
      else
        let CzDen = sshort (cmod (cdiv (zone - INDBASE H) 9) 4 + 1);
            result = CzDen
        in if result < 0 \<or> result > 50 then 0 else result)"

text \<open>
  The cache invariant: each array has its declared size, and an entry is either still
  0 (as the static arrays start) or the uncached value of the tile code it is keyed
  by. The arrays are written by the three functions above only.
\<close>

definition cache_holds :: "(int \<Rightarrow> int) \<Rightarrow> int list \<Rightarrow> bool" where
  "cache_holds f xs \<longleftrightarrow>
     length xs = nat POP_CACHE_SIZE \<and>
     (\<forall>i < nat POP_CACHE_SIZE. xs ! i = 0 \<or> xs ! i = f (RESBASE + int i))"

definition cache_ok :: "hdr \<Rightarrow> sim \<Rightarrow> bool" where
  "cache_ok H s \<longleftrightarrow>
     cache_holds (resPop_uncached H) (resPopCache s) \<and>
     cache_holds (comPop_uncached H) (comPopCache s) \<and>
     cache_holds (indPop_uncached H) (indPopCache s)"

section \<open>The tile grid\<close>

text \<open>\<open>Map[y][x] & LOMASK\<close> as an \<open>int\<close>; the masks are 16-bit constants.\<close>

definition tile_code :: "hdr \<Rightarrow> 16 word \<Rightarrow> int" where
  "tile_code H c = uint (c AND LOMASK H)"

text \<open>
  Modelled from the spec: the macro \<open>BOUNDS_CHECK\<close> of sim.h is not among the
  sources. Section 3 of the specification describes a fixed-size grid whose
  coordinates are checked before a cell is dereferenced; the test is the one
  \<open>ZonePlop\<close> and \<open>EvalLot\<close> write out by hand.
\<close>

definition BOUNDS_CHECK :: "hdr \<Rightarrow> int \<Rightarrow> int \<Rightarrow> bool" where
  "BOUNDS_CHECK H x y \<longleftrightarrow> 0 \<le> x \<and> x < WORLD_X H \<and> 0 \<le> y \<and> y < WORLD_Y H"

text \<open>
  Modelled from the spec: \<open>setMapTile\<close> (declared in tiles.h) is not among the
  sources. The specification calls it the tile-grid write primitive keyed by (x,y)
  (section 6), through which the stamper writes a cell's code together with flags
  (section 4.5). Every call in zone.c passes the mode \<open>TILE_SET_PRESERVE\<close>, the
  only one modelled: the cell keeps the flag bits it has, gains the flags passed,
  and its low (code) bits are replaced by the new tile code. A coordinate outside
  the grid is left alone. The caller-name string is dropped.
\<close>

definition setMapTile :: "hdr \<Rightarrow> int \<Rightarrow> int \<Rightarrow> int \<Rightarrow> 16 word \<Rightarrow> sim \<Rightarrow> sim" where
  "setMapTile H x y tile flags s =
     (if BOUNDS_CHECK H x y
      then s\<lparr>Map := (Map s)(y := (Map s y)(x :=
               (Map s y x AND NOT (LOMASK H)) OR flags OR (word_of_int tile AND LOMASK H)))\<rparr>
      else s)"

text \<open>
  The collaborators of other files (traffic.c, animation.c, tiles.c, the disaster
  code), none of them among the sources, are parameters. \<open>MakeTraffic\<close> and
  \<open>FindPRoad\<close> are called for their result; \<open>SetSmoke\<close>, \<open>makeMeltdown\<close>,
  \<open>UpgradeTile\<close> and \<open>SetRubbleTile\<close> give the tile grid they leave behind.
\<close>

record ext =
  MakeTraffic :: "int \<Rightarrow> sim \<Rightarrow> int"
  FindPRoad :: "sim \<Rightarrow> int"
  SetSmoke :: "int \<Rightarrow> int \<Rightarrow> sim \<Rightarrow> grid"
  makeMeltdown :: "sim \<Rightarrow> grid"
  UpgradeTile :: "int \<Rightarrow> int \<Rightarrow> int \<Rightarrow> sim \<Rightarrow> grid"
  SetRubbleTile :: "int \<Rightarrow> int \<Rightarrow> sim \<Rightarrow> grid"

text \<open>The nine cells of a 3 by 3 block, as (dy, dx), in the order the loops visit them.\<close>

definition offsets :: "(int \<times> int) list" where
  "offsets = concat (map (\<lambda>dy. map (\<lambda>dx. (dy, dx)) [-1, 0, 1]) [-1, 0, 1])"

section \<open>Land value and desirability (GetCRVal, EvalRes, EvalInd)\<close>

definition GetCRVal :: "int \<Rightarrow> int \<Rightarrow> sim \<Rightarrow> int" where
  "GetCRVal x y s =
     (let LVal = sshort (LandValueMem s (drop_bit 1 (SMapY s)) (drop_bit 1 (SMapX s)));
          LVal = sshort (LVal - PollutionMem s (drop_bit 1 (SMapY s)) (drop_bit 1 (SMapX s)))
      in if LVal < 30 then 0
         else if LVal < 80 then 1
         else if LVal < 150 then 2
         else 3)"

definition EvalRes :: "int \<Rightarrow> sim \<Rightarrow> int" where
  "EvalRes traf s =
     (if traf < 0 then -3000
      else
        let Value = sshort (LandValueMem s (drop_bit 1 (SMapY s)) (drop_bit 1 (SMapX s)));
            Value = sshort (Value - PollutionMem s (drop_bit 1 (SMapY s)) (drop_bit 1 (SMapX s)));
            Value = (if Value < 0 then 0 else sshort (push_bit 5 Value));
            Value = (if Value > 6000 then 6000 else Value);
            Value = sshort (Value - 3000)
        in Value)"

definition EvalInd :: "int \<Rightarrow> int" where
  "EvalInd traf = (if traf < 0 then -1000 else 0)"

definition IncROG :: "int \<Rightarrow> sim \<Rightarrow> sim" where
  "IncROG amount s = s"

section \<open>The 3 by 3 stamper (ZonePlop) and its callers\<close>

definition ZonePlop_cell :: "hdr \<Rightarrow> int \<Rightarrow> int \<Rightarrow> int \<Rightarrow> int \<times> int \<Rightarrow> sim \<Rightarrow> sim" where
  "ZonePlop_cell H xpos ypos base d s =
     (let dy = fst d; dx = snd d;
          x = sshort (xpos + dx);
          y = sshort (ypos + dy)
      in if BOUNDS_CHECK H x y then
           if \<not> (dx = 0 \<and> dy = 0) then
             let z = sshort (tile_code H (Map s y x)) in
             if z < ROADS H \<or> z > LASTRAIL H then
               if Map s y x AND BULLBIT H \<noteq> 0 then
                 case ZoneRandom 2 s of (r, s1) \<Rightarrow>
                   let newTile = sshort (base + BSIZE H + r) in
                   if newTile < 0 \<or> newTile > LASTZONE H
                   then addDebugLog ''ERROR: Invalid tile calc %d = %d + %d + rand at %d,%d'' s1
                   else setMapTile H x y newTile (CONDBIT H OR BURNBIT H OR BULLBIT H) s1
               else s
             else s
           else s
         else s)"

definition ZonePlop :: "hdr \<Rightarrow> int \<Rightarrow> int \<Rightarrow> int \<Rightarrow> sim \<Rightarrow> int \<times> sim" where
  "ZonePlop H xpos ypos base s0 =
     (let s = enter (CallZonePlop xpos ypos base) s0 in
      if xpos < 0 \<or> xpos \<ge> WORLD_X H \<or> ypos < 0 \<or> ypos \<ge> WORLD_Y H then (0, s)
      else if Map s ypos xpos AND BULLBIT H = 0 then (0, s)
      else if base < RESBASE \<or> base > LASTZONE H
      then (0, addDebugLog ''ERROR: Invalid zone base %d at %d,%d'' s)
      else
        let s1 = setMapTile H xpos ypos base
                   (BNCNBIT H OR CONDBIT H OR BURNBIT H OR BULLBIT H) s
        in (1, fold (ZonePlop_cell H xpos ypos base) offsets s1))"

definition ResPlop :: "hdr \<Rightarrow> int \<Rightarrow> int \<Rightarrow> int \<Rightarrow> int \<Rightarrow> sim \<Rightarrow> sim" where
  "ResPlop H x y den val s0 =
     (let s = addDebugLog ''ResPlop: x=%d y=%d den=%d value=%d''
                (enter (CallResPlop x y den val) s0)
      in if den < -4 \<or> den > 4
         then addDebugLog ''ERROR: Invalid residential density %d at %d,%d'' s
         else if val < 0 \<or> val > 8
         then addDebugLog ''ERROR: Invalid residential value %d at %d,%d'' s
         else
           let val = (if val < 0 then 0 else val);
               val = (if val > 3 then 3 else val);
               targetTile = (val * 4 + den) * 9 + RZB;
               s = addDebugLog ''ResPlop calc: (((value=%d * 4) + den=%d) * 9) + RZB=%d - 4 = %d'' s
           in if targetTile < RESBASE \<or> targetTile \<ge> COMBASE H
              then addDebugLog ''ERROR: ResPlop tile %d out of range at %d,%d (den=%d val=%d)'' s
              else if cmod (targetTile - RZB) 9 \<noteq> 0
              then addDebugLog ''ERROR: (tile-RZB)=%d is not divisible by 9''
                     (addDebugLog
                        ''ERROR: ResPlop tile %d is not a valid residential center at %d,%d (den=%d val=%d)''
                        s)
              else snd (ZonePlop H x y targetTile s))"

definition IndPlop :: "hdr \<Rightarrow> int \<Rightarrow> int \<Rightarrow> int \<Rightarrow> sim \<Rightarrow> sim" where
  "IndPlop H x y den s0 =
     (let s = addDebugLog ''IndPlop: x=%d y=%d den=%d'' (enter (CallIndPlop x y den) s0);
          targetTile = (0 * 4 + den) * 9 + IZB - 4;
          s = addDebugLog ''IndPlop calc: (((0 * 4) + den=%d) * 9) + IZB=%d - 4 = %d'' s
      in snd (ZonePlop H x y targetTile s))"

section \<open>Residential growth (EvalLot, BuildHouse, DoResIn) and industrial growth (DoIndIn)\<close>

definition EvalLot :: "hdr \<Rightarrow> int \<Rightarrow> int \<Rightarrow> sim \<Rightarrow> int" where
  "EvalLot H x y s =
     (if x < 0 \<or> x \<ge> WORLD_X H \<or> y < 0 \<or> y \<ge> WORLD_Y H then -1
      else
        let z = sshort (tile_code H (Map s y x));
            score = 1;
            score = (if z \<ge> RESBASE \<and> z \<le> RESBASE + 8 then 0 else score);
            score = (if score \<noteq> 0 \<and> z \<noteq> DIRT H then 0 else score)
        in if score = 0 then score else score)"

text \<open>One pass of the body of \<open>BuildHouse\<close>'s loops: \<open>z\<close> is the best score so far.\<close>

definition BuildHouse_scan :: "hdr \<Rightarrow> int \<Rightarrow> int \<Rightarrow> sim \<Rightarrow> int \<times> int \<Rightarrow> int \<Rightarrow> int" where
  "BuildHouse_scan H x y s d z =
     (let yy = fst d; xx = snd d
      in if xx \<noteq> 0 \<or> yy \<noteq> 0 then
           let score = sshort (EvalLot H (x + xx) (y + yy) s)
           in if score > z then score else z
         else z)"

text \<open>
  \<open>BuildHouse\<close> finds the best score and then does nothing with it: the body of its
  final \<open>if (z > 0)\<close> holds a comment only.
\<close>

definition BuildHouse :: "hdr \<Rightarrow> int \<Rightarrow> int \<Rightarrow> int \<Rightarrow> sim \<Rightarrow> sim" where
  "BuildHouse H x y val s0 =
     (let s = enter (CallBuildHouse x y val) s0;
          z = fold (BuildHouse_scan H x y s) offsets 0
      in if z > 0 then s else s)"

definition DoResIn :: "hdr \<Rightarrow> int \<Rightarrow> int \<Rightarrow> sim \<Rightarrow> sim" where
  "DoResIn H pop val s0 =
     (let s = enter (CallResIn pop val) s0;
          z = sshort (PollutionMem s (drop_bit 1 (SMapY s)) (drop_bit 1 (SMapX s)))
      in if z > 128 then s
         else
           let currentTile = sshort (tile_code H (Map s (SMapY s) (SMapX s)))
           in if currentTile = HOSPITAL H \<or> currentTile = CHURCH H
              then addDebugLog ''DoResIn: Skipping non-residential tile %d at %d,%d'' s
              else if tile_code H (Map s (SMapY s) (SMapX s)) = FREEZ H then
                if pop < 8 then IncROG 1 (BuildHouse H (SMapX s) (SMapY s) val s)
                else if PopDensity s (drop_bit 1 (SMapY s)) (drop_bit 1 (SMapX s)) > 64
                then IncROG 8 (ResPlop H (SMapX s) (SMapY s) 0 val s)
                else s
              else if pop < 40 then
                let density = cdiv pop 8 - 1
                in IncROG 8 (ResPlop H (SMapX s) (SMapY s) density val s)
              else s)"

definition DoIndIn :: "hdr \<Rightarrow> int \<Rightarrow> int \<Rightarrow> sim \<Rightarrow> sim" where
  "DoIndIn H pop val s0 =
     (let s = enter (CallIndIn pop val) s0
      in if pop < 4 then IncROG 8 (IndPlop H (SMapX s) (SMapY s) pop s) else s)"

section \<open>Decline (DoResOut, DoComOut, DoIndOut)\<close>

text \<open>
  The two branches of \<open>DoResOut\<close> (population above 16, or a random draw of 0) hold
  the same block, which differs in the message it logs only.
\<close>

definition DoResOut_step :: "hdr \<Rightarrow> ext \<Rightarrow> int \<Rightarrow> int \<Rightarrow> int \<Rightarrow> string \<Rightarrow> sim \<Rightarrow> sim" where
  "DoResOut_step H E originalTile x y msg s =
     (let currentFormula = originalTile - RZB;
          currentCombined = cdiv currentFormula 9
      in if currentCombined > 0 then
           let newCombined = currentCombined - 1;
               newTile = newCombined * 9 + RZB
           in if newTile \<ge> RESBASE \<and> newTile < COMBASE H \<and> cmod (newTile - RZB) 9 = 0
              then addDebugLog msg (s\<lparr>Map := UpgradeTile E x y newTile s\<rparr>)
              else s
         else s)"

definition DoResOut :: "hdr \<Rightarrow> ext \<Rightarrow> int \<Rightarrow> int \<Rightarrow> int \<Rightarrow> int \<Rightarrow> sim \<Rightarrow> sim" where
  "DoResOut H E pop val x y s0 =
     (let s = enter (CallResOut pop val x y) s0;
          originalTile = sshort (tile_code H (Map s y x))
      in if Map s y x AND ZONEBIT H = 0 then s
         else if cmod (originalTile - RZB) 9 \<noteq> 0
         then addDebugLog ''ERROR: DoResOut called on invalid residential center %d at %d,%d'' s
         else
           let s1 = (if pop > 16
                     then DoResOut_step H E originalTile x y ''DoResOut decline: %d->%d at %d,%d'' s
                     else case ZoneRandom 4 s of (r, s') \<Rightarrow>
                       if r = 0
                       then DoResOut_step H E originalTile x y ''DoResOut decay: %d->%d at %d,%d'' s'
                       else s')
           in if originalTile \<le> FREEZ H + 18 \<and> val < 30 \<and> pop = 0 then
                case ZoneRandom 4 s1 of (r, s2) \<Rightarrow>
                  if r = 0 then
                    case ZoneRandom 2 s2 of (r2, s3) \<Rightarrow>
                      if r2 = 0
                      then addDebugLog ''Zone ruined to rubble at %d,%d (month=%d)''
                             (s3\<lparr>Map := SetRubbleTile E x y s3\<rparr>)
                      else s3
                  else s2
              else s1)"

definition DoComOut :: "hdr \<Rightarrow> ext \<Rightarrow> int \<Rightarrow> int \<Rightarrow> int \<Rightarrow> sim \<Rightarrow> sim" where
  "DoComOut H E pop x y s0 =
     (let s = enter (CallComOut pop x y) s0;
          base = sshort (tile_code H (Map s y x) - COMBASE H)
      in if base = 0 then s
         else if base > 0 then
           case ZoneRandom 8 s of (r, s1) \<Rightarrow>
             if r = 0 then s1\<lparr>Map := UpgradeTile E x y (COMBASE H + base - 1) s1\<rparr> else s1
         else s)"

definition DoIndOut :: "hdr \<Rightarrow> int \<Rightarrow> int \<Rightarrow> int \<Rightarrow> sim \<Rightarrow> sim" where
  "DoIndOut H pop x y s0 =
     (let s = enter (CallIndOut pop x y) s0;
          base = sshort (tile_code H (Map s y x) - INDBASE H)
      in if base = 0 then s
         else if base > 0 then
           case ZoneRandom 8 s of (r, s1) \<Rightarrow>
             if r = 0 then setMapTile H x y (INDBASE H + base - 1) 0 s1 else s1
         else s)"

section \<open>Per-tile processing (DoResidential, DoIndustrial, DoSPZ)\<close>

text \<open>
  \<open>SetZPower\<close> is an empty function in zone.c (the powered flag is set elsewhere);
  the calls to it are left out.

  The check \<open>DoResidential\<close> repeats after each call of \<open>DoResOut\<close>: a residential
  tile that has become a road tile is reported to the log.
\<close>

definition corruption_check :: "hdr \<Rightarrow> string \<Rightarrow> int \<Rightarrow> int \<Rightarrow> int \<Rightarrow> sim \<Rightarrow> sim" where
  "corruption_check H msg oldTile x y s =
     (let newTile = sshort (tile_code H (Map s y x))
      in if newTile \<ge> ROADBASE H \<and> newTile \<le> LASTROAD H
            \<and> oldTile \<ge> RESBASE \<and> oldTile < COMBASE H
         then addDebugLog msg s else s)"

definition DoResidential :: "hdr \<Rightarrow> ext \<Rightarrow> int \<Rightarrow> int \<Rightarrow> sim \<Rightarrow> sim" where
  "DoResidential H E x y s0 =
     (let zone = Map s0 y x
      in if zone AND ZONEBIT H = 0 then s0
         else
           let zonePowered = (Map s0 y x AND POWERBIT H \<noteq> 0);
               tpop = sshort (RZPop s0);
               tileId = sshort (tile_code H zone)
           in case calcResPop H tileId s0 of (pop0, s1) \<Rightarrow>
             let pop = (if pop0 = 0 \<and> zonePowered then 1 else pop0);
                 s2 = s1\<lparr>ResPop := ResPop s1 + pop\<rparr>;
                 s3 = (if pop > 0 \<and> CityTime s2 AND 7 = 0 then
                         let s' = s2\<lparr>SMapX := x, SMapY := y\<rparr>
                         in if MakeTraffic E 0 s' > 0
                            then s'\<lparr>RZPop := RZPop s' + pop\<rparr> else s'
                       else s2)
             in if CityTime s3 AND 7 = 0 then
                  let oldTile = sshort (tile_code H (Map s3 y x));
                      val = GetCRVal x y s3
                  in if val < 0
                     then corruption_check H
                            ''CORRUPTION: Res zone at %d,%d changed from %d to road %d (month=%d)''
                            oldTile x y (DoResOut H E tpop val x y s3)
                     else if \<not> zonePowered
                     then corruption_check H
                            ''CORRUPTION: Unpowered res zone at %d,%d changed from %d to road %d (month=%d)''
                            oldTile x y (DoResOut H E tpop (-500) x y s3)
                     else
                       let val = EvalRes 1 s3;
                           s4 = (if val > 0 then
                                   let landValue = GetCRVal x y s3
                                   in DoResIn H tpop landValue s3
                                 else if val < 0
                                 then corruption_check H
                                        ''CORRUPTION: Declining res zone at %d,%d changed from %d to road %d (month=%d)''
                                        oldTile x y (DoResOut H E tpop val x y s3)
                                 else s3)
                       in if CityTime s4 AND 7 = 0 then s4\<lparr>RZPop := 0\<rparr> else s4
                else s3)"

text \<open>
  The state \<open>DoResidential\<close> has reached when it decides between growth and
  decline: the part of its body before the block \<open>if ((CityTime & 7) == 0)\<close>, for a
  tile that carries the zone-center bit. The population has been counted into the
  census and, on an 8th tick, traffic has been generated.
\<close>

definition res_census :: "hdr \<Rightarrow> ext \<Rightarrow> int \<Rightarrow> int \<Rightarrow> sim \<Rightarrow> sim" where
  "res_census H E x y s0 =
     (let zonePowered = (Map s0 y x AND POWERBIT H \<noteq> 0);
          tileId = sshort (tile_code H (Map s0 y x))
      in case calcResPop H tileId s0 of (pop0, s1) \<Rightarrow>
           let pop = (if pop0 = 0 \<and> zonePowered then 1 else pop0);
               s2 = s1\<lparr>ResPop := ResPop s1 + pop\<rparr>
           in if pop > 0 \<and> CityTime s2 AND 7 = 0 then
                let s' = s2\<lparr>SMapX := x, SMapY := y\<rparr>
                in if MakeTraffic E 0 s' > 0
                   then s'\<lparr>RZPop := RZPop s' + pop\<rparr> else s'
              else s2)"

definition DoIndustrial :: "hdr \<Rightarrow> ext \<Rightarrow> int \<Rightarrow> int \<Rightarrow> sim \<Rightarrow> sim" where
  "DoIndustrial H E x y s0 =
     (let zone = Map s0 y x
      in if zone AND ZONEBIT H = 0 then s0
         else
           let zonePowered = (Map s0 y x AND POWERBIT H \<noteq> 0);
               sa = s0\<lparr>Map := SetSmoke E x y s0\<rparr>;
               tpop = sshort (IZPop sa)
           in case calcIndPop H (tile_code H zone) sa of (pop0, s1) \<Rightarrow>
             let s1 = (if pop0 < 0 \<or> pop0 > 1000
                       then addDebugLog
                              ''WARNING: Industrial zone at (%d,%d) has unusual pop=%d from zone=%d (tile=%d)''
                              s1
                       else s1);
                 pop = (if pop0 = 0 \<and> zonePowered then 1 else pop0);
                 s2 = s1\<lparr>IndPop := IndPop s1 + pop\<rparr>;
                 s3 = (if pop > 0 \<and> CityTime s2 AND 7 = 0 then
                         let s' = s2\<lparr>SMapX := x, SMapY := y\<rparr>
                         in if MakeTraffic E 2 s' > 0
                            then s'\<lparr>IZPop := IZPop s' + pop\<rparr> else s'
                       else s2)
             in if CityTime s3 AND 7 = 0 then
                  let val = GetCRVal x y s3
                  in if val < 0 then DoIndOut H tpop x y s3
                     else
                       let val = EvalInd 1;
                           s4 = (if val > 0 then DoIndIn H tpop val s3
                                 else if val < 0 then DoIndOut H tpop x y s3
                                 else s3)
                       in if CityTime s4 AND 7 = 0 then s4\<lparr>IZPop := 0\<rparr> else s4
                else s3)"

text \<open>
  The police and the fire branch of \<open>DoSPZ\<close> are the same code on different
  globals; \<open>station_effect\<close> is the value \<open>effect\<close> holds when it is stored.
\<close>

definition station_effect :: "hdr \<Rightarrow> ext \<Rightarrow> int \<Rightarrow> int \<Rightarrow> int \<Rightarrow> sim \<Rightarrow> int" where
  "station_effect H E base_effect x y s =
     (let effect = (if Map s y x AND POWERBIT H \<noteq> 0 then base_effect
                    else drop_bit 1 base_effect);
          effect = (if FindPRoad E s = 0 then drop_bit 1 effect else effect)
      in effect)"

definition DoSPZ :: "hdr \<Rightarrow> ext \<Rightarrow> int \<Rightarrow> int \<Rightarrow> sim \<Rightarrow> sim" where
  "DoSPZ H E x y s =
     (if Map s y x AND ZONEBIT H = 0 then s
      else if CityTime s AND 15 \<noteq> 0 then s
      else
        let z = sshort (tile_code H (Map s y x))
        in if z = POWERPLANT H then s\<lparr>Map := SetSmoke E x y s\<rparr>
           else if z = STADIUM H then
             case ZoneRandom 3 s of (rx, s1) \<Rightarrow>
             case ZoneRandom 3 s1 of (ry, s2) \<Rightarrow>
               let s3 = s2\<lparr>ComPop := ComPop s2 + 50\<rparr>
               in case ZoneRandom 5 s3 of (r, s4) \<Rightarrow>
                    if r = 1 then s4\<lparr>CZPop := CZPop s4 + 1\<rparr> else s4
           else if z = NUCLEAR H then
             let s1 = s\<lparr>NuclearPop := NuclearPop s + 1\<rparr>
             in if DisastersEnabled s1 \<noteq> 0 then
                  case ZoneRandom (DifficultyMeltdownRisk H (GameLevel s1)) s1 of (r, s2) \<Rightarrow>
                    if r = 0 then
                      let s3 = addDebugLog ''CRITICAL: Nuclear power plant meltdown detected!'' s2
                      in s3\<lparr>Map := makeMeltdown E s3\<rparr>
                    else s2
                else s1
           else if z = POLICESTATION H then
             let effect = station_effect H E (PoliceEffect s) x y s;
                 s1 = s\<lparr>PoliceMap := (PoliceMap s)(drop_bit 2 y :=
                          (PoliceMap s (drop_bit 2 y))(drop_bit 2 x := PoliceCell H effect))\<rparr>;
                 s2 = addDebugLog
                        ''POLICE: Added %d to map at (%d,%d) -> quarter (%d,%d), value now %d'' s1
             in if PoliceMap s2 (drop_bit 2 y) (drop_bit 2 x) > 250
                then s2\<lparr>PoliceMap := (PoliceMap s2)(drop_bit 2 y :=
                          (PoliceMap s2 (drop_bit 2 y))(drop_bit 2 x := PoliceCell H 250))\<rparr>
                else s2
           else if z = FIRESTATION H then
             let effect = station_effect H E (FireEffect s) x y s;
                 s1 = s\<lparr>FireStMap := (FireStMap s)(drop_bit 2 y :=
                          (FireStMap s (drop_bit 2 y))(drop_bit 2 x := PoliceCell H effect))\<rparr>
             in if FireStMap s1 (drop_bit 2 y) (drop_bit 2 x) > 250
                then s1\<lparr>FireStMap := (FireStMap s1)(drop_bit 2 y :=
                          (FireStMap s1 (drop_bit 2 y))(drop_bit 2 x := PoliceCell H 250))\<rparr>
                else s1
           else s)"

section \<open>Observation and sample inputs\<close>

text \<open>The handler invocations a run from \<open>s\<close> to \<open>s'\<close> has added.\<close>

definition new_calls :: "sim \<Rightarrow> sim \<Rightarrow> call list" where
  "new_calls s s' = drop (length (calls s)) (calls s')"

text \<open>
  The specification's \<open>landValueTier\<close>: land value minus pollution, bucketed by the
  thresholds 30, 80 and 150. \<open>LandVal\<close> and \<open>PollVal\<close> are the two cells
  \<open>GetCRVal\<close> reads, and \<open>short_range\<close> says that a value fits a \<open>short\<close>.
\<close>

definition spec_landValueTier :: "int \<Rightarrow> int" where
  "spec_landValueTier d = (if d < 30 then 0 else if d < 80 then 1 else if d < 150 then 2 else 3)"

definition LandVal :: "sim \<Rightarrow> int" where
  "LandVal s = LandValueMem s (drop_bit 1 (SMapY s)) (drop_bit 1 (SMapX s))"

definition PollVal :: "sim \<Rightarrow> int" where
  "PollVal s = PollutionMem s (drop_bit 1 (SMapY s)) (drop_bit 1 (SMapX s))"

definition short_range :: "int \<Rightarrow> bool" where
  "short_range v \<longleftrightarrow> -32768 \<le> v \<and> v \<le> 32767"

text \<open>
  A header to run the model on: the tile numbering and the cell layout of the
  original Micropolis sources, which the comments of zone.c refer to (there
  \<open>BNCNBIT\<close> is \<open>BURNBIT | CONDBIT\<close>), a 120 by 100 grid and influence grids of
  shorts. The theorems that are stated for a header \<open>H\<close> hold for every header;
  this one serves the runs on concrete inputs.
\<close>

definition micropolis_hdr :: hdr where
  "micropolis_hdr = \<lparr>
     COMBASE = 423, INDBASE = 612, LASTZONE = 826, COMCLR = 427, INDCLR = 616,
     HOSPITAL = 409, CHURCH = 418, FREEZ = 244, POWERPLANT = 750, NUCLEAR = 816,
     STADIUM = 784, POLICESTATION = 774, FIRESTATION = 765, DIRT = 0, ROADS = 64,
     LASTRAIL = 238, ROADBASE = 64, LASTROAD = 206, BSIZE = 8, WORLD_X = 120,
     WORLD_Y = 100, LOMASK = 0x03FF, ZONEBIT = 0x0400, POWERBIT = 0x8000,
     BULLBIT = 0x1000, BURNBIT = 0x2000, CONDBIT = 0x4000, BNCNBIT = 0x6000,
     PoliceCell = sshort, DifficultyMeltdownRisk = (\<lambda>_. 30000) \<rparr>"

text \<open>
  A start state: every cell is bare, bulldozable ground, the coarse grids are 0, the
  caches are as the C runtime zeroes them, and \<open>rand()\<close> returns 0 at every draw.
  \<open>sim_at c\<close> is the same state with the cell at x = 5, y = 5 set to \<open>c\<close>.
\<close>

definition sim0 :: sim where
  "sim0 = \<lparr>
     Map = (\<lambda>y x. 0x1000), SMapX = 5, SMapY = 5, CityTime = 0,
     RZPop = 0, CZPop = 0, IZPop = 0, ResPop = 0, ComPop = 0, IndPop = 0, NuclearPop = 0,
     LandValueMem = (\<lambda>y x. 0), PollutionMem = (\<lambda>y x. 0), PopDensity = (\<lambda>y x. 0),
     PoliceMap = (\<lambda>y x. 0), FireStMap = (\<lambda>y x. 0),
     PoliceEffect = 1000, FireEffect = 1000, DisastersEnabled = 0, GameLevel = 0,
     resPopCache = replicate 512 0, comPopCache = replicate 512 0,
     indPopCache = replicate 512 0, cacheInitialized = 0,
     rand_src = (\<lambda>n. 0), rand_pos = 0, dbglog = [], calls = [] \<rparr>"

definition sim_at :: "16 word \<Rightarrow> sim" where
  "sim_at c = sim0\<lparr>Map := (Map sim0)(5 := (Map sim0 5)(5 := c))\<rparr>"

text \<open>Collaborators for the runs: traffic succeeds, a road is found, the grid is left as it is.\<close>

definition ext0 :: ext where
  "ext0 = \<lparr>
     MakeTraffic = (\<lambda>k s. 1), FindPRoad = (\<lambda>s. 1),
     SetSmoke = (\<lambda>x y s. Map s), makeMeltdown = (\<lambda>s. Map s),
     UpgradeTile = (\<lambda>x y tile s. Map s), SetRubbleTile = (\<lambda>x y s. Map s) \<rparr>"

text \<open>
  The specification's effect magnitude of a police or fire station: the base effect,
  halved if the tile is unpowered, halved again if the road-access query fails. A
  halving is C's \<open>>> 1\<close>.
\<close>

definition spec_station_effect :: "int \<Rightarrow> bool \<Rightarrow> bool \<Rightarrow> int" where
  "spec_station_effect base powered road =
     (let e = (if powered then base else base div 2)
      in if road then e else e div 2)"

text \<open>
  Further sample states: \<open>sim_lv lv pl\<close> has land value \<open>lv\<close> and pollution \<open>pl\<close>
  everywhere; \<open>police_unpowered\<close> has an unpowered police station at x = 5, y = 5, a
  base effect of 300 and 77 in every cell of the police grid.
\<close>

definition sim_lv :: "int \<Rightarrow> int \<Rightarrow> sim" where
  "sim_lv lv pl = sim0\<lparr>LandValueMem := (\<lambda>y x. lv), PollutionMem := (\<lambda>y x. pl)\<rparr>"

definition police_unpowered :: sim where
  "police_unpowered = (sim_at 0x0706)\<lparr>PoliceEffect := 300, PoliceMap := (\<lambda>y x. 77)\<rparr>"

section \<open>Arithmetic lemmas\<close>

lemma sshort_id: "-32768 \<le> v \<Longrightarrow> v \<le> 32767 \<Longrightarrow> sshort v = v"
  by (simp add: sshort_def)

lemma cdiv_nonneg: "0 \<le> a \<Longrightarrow> 0 < b \<Longrightarrow> cdiv a b = a div b"
  by (cases "a = 0") (simp_all add: cdiv_def)

lemma cmod_nonneg: "0 \<le> a \<Longrightarrow> 0 < b \<Longrightarrow> cmod a b = a mod b"
  by (simp add: cmod_def cdiv_nonneg minus_mult_div_eq_mod)






section \<open>The population caches\<close>

lemma cache_holds_read:
  assumes "cache_holds f xs" "0 \<le> z - RESBASE" "z - RESBASE < POP_CACHE_SIZE"
    "xs ! nat (z - RESBASE) \<noteq> 0"
  shows "xs ! nat (z - RESBASE) = f z"
proof -
  have lt: "nat (z - RESBASE) < nat POP_CACHE_SIZE"
    using assms(2,3) by simp
  have "RESBASE + int (nat (z - RESBASE)) = z"
    using assms(2) by simp
  with assms(1,4) lt show ?thesis
    unfolding cache_holds_def by metis
qed

lemma cache_holds_write:
  assumes "cache_holds f xs" "0 \<le> z - RESBASE" "v = f z"
  shows "cache_holds f (xs[nat (z - RESBASE) := v])"
proof -
  have eq: "RESBASE + int (nat (z - RESBASE)) = z"
    using assms(2) by simp
  have "xs[nat (z - RESBASE) := v] ! i = 0 \<or> xs[nat (z - RESBASE) := v] ! i = f (RESBASE + int i)"
    if "i < nat POP_CACHE_SIZE" for i
  proof (cases "i = nat (z - RESBASE)")
    case True
    with that assms(1,3) eq show ?thesis
      by (simp add: cache_holds_def)
  next
    case False
    with that assms(1) show ?thesis
      by (simp add: cache_holds_def)
  qed
  with assms(1) show ?thesis
    by (simp add: cache_holds_def)
qed

lemma uncached_res_range: "0 \<le> resPop_uncached H z \<and> resPop_uncached H z \<le> 1000"
  by (simp add: resPop_uncached_def Let_def)
lemma uncached_com_range: "0 \<le> comPop_uncached H z \<and> comPop_uncached H z \<le> 100"
  by (simp add: comPop_uncached_def Let_def)
lemma uncached_ind_range: "0 \<le> indPop_uncached H z \<and> indPop_uncached H z \<le> 50"
  by (simp add: indPop_uncached_def Let_def)

lemma calcResPop_fst:
  assumes "cache_ok H s"
  shows "fst (calcResPop H z s) = resPop_uncached H z"
proof (cases "RESBASE \<le> z \<and> z \<le> LASTZONE H \<and> z - RESBASE < POP_CACHE_SIZE
               \<and> cacheInitialized s \<noteq> 0 \<and> resPopCache s ! nat (z - RESBASE) \<noteq> 0")
  case True
  then have "resPopCache s ! nat (z - RESBASE) = resPop_uncached H z"
    using assms cache_holds_read [of "resPop_uncached H" "resPopCache s" z]
    by (simp add: cache_ok_def)
  with True show ?thesis
    by (simp add: calcResPop_def Let_def)
next
  case False
  then show ?thesis
    by (auto simp add: calcResPop_def resPop_uncached_def Let_def)
qed

lemma calcResPop_cache_ok:
  assumes ok: "cache_ok H s"
  shows "cache_ok H (snd (calcResPop H z s))"
proof -
  define r where "r = push_bit 3 (sshort (cmod (cdiv (z - RZB) 9) 4)) + 16"
  have w: "cache_holds (resPop_uncached H) ((resPopCache s)[nat (z - RESBASE) := sshort r])"
    if "RESBASE \<le> z" "z \<le> LASTZONE H" "RZB \<le> z" "z - RZB \<le> 32767" "0 \<le> r" "r \<le> 1000"
  proof -
    have "resPop_uncached H z = r"
      using that by (simp add: resPop_uncached_def r_def Let_def)
    moreover have "sshort r = r"
      using that by (simp add: sshort_id)
    ultimately show ?thesis
      using ok that by (intro cache_holds_write) (simp_all add: cache_ok_def)
  qed
  have "cache_ok H (snd (if z < RESBASE \<or> z > LASTZONE H then (0, s)
      else if 0 \<le> z - RESBASE \<and> z - RESBASE < POP_CACHE_SIZE \<and> cacheInitialized s \<noteq> 0
           \<and> resPopCache s ! nat (z - RESBASE) \<noteq> 0
        then (resPopCache s ! nat (z - RESBASE), s)
        else if z < RZB \<or> z - RZB > 32767 then (0, s)
        else if r < 0 \<or> r > 1000 then (0, s)
             else if 0 \<le> z - RESBASE \<and> z - RESBASE < POP_CACHE_SIZE
             then (r, s\<lparr>resPopCache := (resPopCache s)[nat (z - RESBASE) := sshort r],
                               cacheInitialized := 1\<rparr>)
             else (r, s)))"
    using ok w by (simp add: cache_ok_def not_less not_le)
  then show ?thesis
    unfolding calcResPop_def Let_def r_def [symmetric] .
qed

lemma calcComPop_fst:
  assumes "cache_ok H s"
  shows "fst (calcComPop H z s) = comPop_uncached H z"
proof (cases "COMBASE H \<le> z \<and> z \<le> LASTZONE H \<and> z \<noteq> COMCLR H \<and> 0 \<le> z - RESBASE
               \<and> z - RESBASE < POP_CACHE_SIZE
               \<and> cacheInitialized s \<noteq> 0 \<and> comPopCache s ! nat (z - RESBASE) \<noteq> 0")
  case True
  then have "comPopCache s ! nat (z - RESBASE) = comPop_uncached H z"
    using assms cache_holds_read [of "comPop_uncached H" "comPopCache s" z]
    by (simp add: cache_ok_def)
  with True show ?thesis
    by (simp add: calcComPop_def Let_def)
next
  case False
  then show ?thesis
    by (auto simp add: calcComPop_def comPop_uncached_def Let_def)
qed

lemma calcComPop_cache_ok:
  assumes ok: "cache_ok H s"
  shows "cache_ok H (snd (calcComPop H z s))"
proof -
  define r where "r = sshort (cmod (cdiv (z - COMBASE H) 9) 5 + 1)"
  have w: "cache_holds (comPop_uncached H) ((comPopCache s)[nat (z - RESBASE) := sshort r])"
    if "COMBASE H \<le> z" "z \<le> LASTZONE H" "z \<noteq> COMCLR H" "z - COMBASE H \<le> 32767"
       "0 \<le> r" "r \<le> 100" "0 \<le> z - RESBASE"
  proof -
    have "comPop_uncached H z = r"
      using that by (simp add: comPop_uncached_def r_def Let_def)
    moreover have "sshort r = r"
      using that by (simp add: sshort_id)
    ultimately show ?thesis
      using ok that by (intro cache_holds_write) (simp_all add: cache_ok_def)
  qed
  have "cache_ok H (snd (if z < COMBASE H \<or> z > LASTZONE H then (0, s)
      else if z = COMCLR H then (0, s)
      else if 0 \<le> z - RESBASE \<and> z - RESBASE < POP_CACHE_SIZE \<and> cacheInitialized s \<noteq> 0
           \<and> comPopCache s ! nat (z - RESBASE) \<noteq> 0
        then (comPopCache s ! nat (z - RESBASE), s)
        else if z - COMBASE H > 32767 then (0, s)
        else if r < 0 \<or> r > 100 then (0, s)
             else if 0 \<le> z - RESBASE \<and> z - RESBASE < POP_CACHE_SIZE
             then (r, s\<lparr>comPopCache := (comPopCache s)[nat (z - RESBASE) := sshort r]\<rparr>)
             else (r, s)))"
    using ok w by (simp add: cache_ok_def not_less not_le)
  then show ?thesis
    unfolding calcComPop_def Let_def r_def [symmetric] .
qed

lemma calcIndPop_fst:
  assumes "cache_ok H s"
  shows "fst (calcIndPop H z s) = indPop_uncached H z"
proof (cases "INDBASE H \<le> z \<and> z \<le> LASTZONE H \<and> z \<noteq> INDCLR H \<and> 0 \<le> z - RESBASE
               \<and> z - RESBASE < POP_CACHE_SIZE
               \<and> cacheInitialized s \<noteq> 0 \<and> indPopCache s ! nat (z - RESBASE) \<noteq> 0")
  case True
  then have "indPopCache s ! nat (z - RESBASE) = indPop_uncached H z"
    using assms cache_holds_read [of "indPop_uncached H" "indPopCache s" z]
    by (simp add: cache_ok_def)
  with True show ?thesis
    by (simp add: calcIndPop_def Let_def)
next
  case False
  then show ?thesis
    by (auto simp add: calcIndPop_def indPop_uncached_def Let_def)
qed

lemma calcIndPop_cache_ok:
  assumes ok: "cache_ok H s"
  shows "cache_ok H (snd (calcIndPop H z s))"
proof -
  define r where "r = sshort (cmod (cdiv (z - INDBASE H) 9) 4 + 1)"
  have w: "cache_holds (indPop_uncached H) ((indPopCache s)[nat (z - RESBASE) := sshort r])"
    if "INDBASE H \<le> z" "z \<le> LASTZONE H" "z \<noteq> INDCLR H" "z - INDBASE H \<le> 32767"
       "0 \<le> r" "r \<le> 50" "0 \<le> z - RESBASE"
  proof -
    have "indPop_uncached H z = r"
      using that by (simp add: indPop_uncached_def r_def Let_def)
    moreover have "sshort r = r"
      using that by (simp add: sshort_id)
    ultimately show ?thesis
      using ok that by (intro cache_holds_write) (simp_all add: cache_ok_def)
  qed
  have "cache_ok H (snd (if z < INDBASE H \<or> z > LASTZONE H then (0, s)
      else if z = INDCLR H then (0, s)
      else if 0 \<le> z - RESBASE \<and> z - RESBASE < POP_CACHE_SIZE \<and> cacheInitialized s \<noteq> 0
           \<and> indPopCache s ! nat (z - RESBASE) \<noteq> 0
        then (indPopCache s ! nat (z - RESBASE), s)
        else if z - INDBASE H > 32767 then (0, s)
        else if r < 0 \<or> r > 50 then (0, s)
             else if 0 \<le> z - RESBASE \<and> z - RESBASE < POP_CACHE_SIZE
             then (r, s\<lparr>indPopCache := (indPopCache s)[nat (z - RESBASE) := sshort r]\<rparr>)
             else (r, s)))"
    using ok w by (simp add: cache_ok_def not_less not_le)
  then show ?thesis
    unfolding calcIndPop_def Let_def r_def [symmetric] .
qed



lemma cache_ok_sim0: "cache_ok H sim0"
  by (simp add: cache_ok_def cache_holds_def sim0_def POP_CACHE_SIZE_def)

lemma resPop_uncached_formula:
  assumes "RZB \<le> c" "c \<le> LASTZONE H" "c - RZB \<le> 32767"
  shows "resPop_uncached H c = ((c - RZB) div 9 mod 4) * 8 + 16"
proof -
  define m where "m = (c - RZB) div 9 mod 4"
  have m: "0 \<le> m" "m < 4" by (simp_all add: m_def)
  have "0 \<le> (c - RZB) div 9" using assms(1) by simp
  then have "cmod (cdiv (c - RZB) 9) 4 = m"
    using assms(1) by (simp add: cdiv_nonneg cmod_nonneg m_def)
  moreover have "sshort m = m" using m by (simp add: sshort_id)
  moreover have "RESBASE \<le> c" using assms(1) by (simp add: RZB_def RESBASE_def)
  ultimately show ?thesis
    using assms m unfolding resPop_uncached_def Let_def m_def [symmetric]
    by (simp add: push_bit_eq_mult)
qed

lemma resPop_uncached_zero:
  "c < RZB \<or> c > LASTZONE H \<Longrightarrow> resPop_uncached H c = 0"
  by (auto simp add: resPop_uncached_def)

lemma resPop_uncached_values: "resPop_uncached H c \<in> {0, 16, 24, 32, 40}"
proof (cases "RZB \<le> c \<and> c \<le> LASTZONE H \<and> c - RZB \<le> 32767")
  case True
  define m where "m = (c - RZB) div 9 mod 4"
  have "0 \<le> m" "m < 4" by (simp_all add: m_def)
  then have "m = 0 \<or> m = 1 \<or> m = 2 \<or> m = 3" by arith
  moreover have "resPop_uncached H c = m * 8 + 16"
    using True by (simp add: resPop_uncached_formula m_def)
  ultimately show ?thesis by auto
next
  case False
  then have "resPop_uncached H c = 0"
    by (auto simp add: resPop_uncached_def)
  then show ?thesis by simp
qed

text \<open>
  Claim C2. For every tile code \<open>c\<close>, each of \<open>calcResPop\<close>, \<open>calcComPop\<close> and
  \<open>calcIndPop\<close> returns the same value when it is called twice in succession
  with \<open>c\<close>, the second call running on the caches the first one left, and the
  value lies in [0,1000], [0,100] and [0,50] respectively. This covers the codes
  whose cache index is outside the arrays. The state is any one in which the caches
  hold what these functions have stored (\<open>cache_ok\<close>), which the start state does
  and each of the three functions preserves.
\<close>

theorem calcPop_pure_and_clamped:
  assumes "cache_ok H s"
  shows "fst (calcResPop H c (snd (calcResPop H c s))) = fst (calcResPop H c s)
       \<and> 0 \<le> fst (calcResPop H c s) \<and> fst (calcResPop H c s) \<le> 1000
       \<and> fst (calcComPop H c (snd (calcComPop H c s))) = fst (calcComPop H c s)
       \<and> 0 \<le> fst (calcComPop H c s) \<and> fst (calcComPop H c s) \<le> 100
       \<and> fst (calcIndPop H c (snd (calcIndPop H c s))) = fst (calcIndPop H c s)
       \<and> 0 \<le> fst (calcIndPop H c s) \<and> fst (calcIndPop H c s) \<le> 50"
  using assms
  by (simp add: calcResPop_fst calcResPop_cache_ok uncached_res_range
      calcComPop_fst calcComPop_cache_ok uncached_com_range
      calcIndPop_fst calcIndPop_cache_ok uncached_ind_range)

theorem calcPop_pure_and_clamped_witness:
  "cache_ok micropolis_hdr sim0
   \<and> fst (calcResPop micropolis_hdr 283 sim0) = 32
   \<and> fst (calcResPop micropolis_hdr 283 (snd (calcResPop micropolis_hdr 283 sim0))) = 32
   \<and> fst (calcComPop micropolis_hdr 450 sim0) = 4
   \<and> fst (calcComPop micropolis_hdr 450 (snd (calcComPop micropolis_hdr 450 sim0))) = 4
   \<and> fst (calcIndPop micropolis_hdr 800 sim0) = 1
   \<and> fst (calcIndPop micropolis_hdr 800 (snd (calcIndPop micropolis_hdr 800 sim0))) = 1"
proof -
  have ok: "cache_ok micropolis_hdr sim0" by (rule cache_ok_sim0)
  have r: "fst (calcResPop micropolis_hdr 283 sim0) = 32"
    by (simp add: calcResPop_def micropolis_hdr_def sim0_def RESBASE_def RZB_def
        POP_CACHE_SIZE_def cdiv_def cmod_def sshort_def Let_def)
  have c: "fst (calcComPop micropolis_hdr 450 sim0) = 4"
    by (simp add: calcComPop_def micropolis_hdr_def sim0_def RESBASE_def
        POP_CACHE_SIZE_def cdiv_def cmod_def sshort_def Let_def)
  have i: "fst (calcIndPop micropolis_hdr 800 sim0) = 1"
    by (simp add: calcIndPop_def micropolis_hdr_def sim0_def RESBASE_def
        POP_CACHE_SIZE_def cdiv_def cmod_def sshort_def Let_def)
  show ?thesis
    using calcPop_pure_and_clamped [OF ok, of 283] calcPop_pure_and_clamped [OF ok, of 450]
      calcPop_pure_and_clamped [OF ok, of 800] ok r c i
    by simp
qed

text \<open>
  Claim C10. \<open>calcResPop\<close> returns a value in {0, 16, 24, 32, 40}: 0 for a code
  below \<open>RZB\<close> or above \<open>LASTZONE\<close>, and
  \<open>(((code - RZB) / 9) mod 4) * 8 + 16\<close> for a code from \<open>RZB\<close> to \<open>LASTZONE\<close>,
  where \<open>LASTZONE\<close> is a tile code that fits a \<open>short\<close>. So the figure never
  exceeds 40 and is never strictly between 0 and 16.
\<close>

theorem calcResPop_values:
  assumes "cache_ok H s"
  shows "fst (calcResPop H c s) \<in> {0, 16, 24, 32, 40}
       \<and> (c < RZB \<or> c > LASTZONE H \<longrightarrow> fst (calcResPop H c s) = 0)
       \<and> (RZB \<le> c \<and> c \<le> LASTZONE H \<and> LASTZONE H \<le> 32767 \<longrightarrow>
            fst (calcResPop H c s) = ((c - RZB) div 9 mod 4) * 8 + 16)"
proof -
  have "c - RZB \<le> 32767" if "c \<le> LASTZONE H" "LASTZONE H \<le> 32767"
    using that by (simp add: RZB_def)
  then show ?thesis
    using assms resPop_uncached_values [of H c]
    by (auto simp add: calcResPop_fst resPop_uncached_zero resPop_uncached_formula)
qed

theorem calcResPop_values_witness:
  "cache_ok micropolis_hdr sim0
   \<and> fst (calcResPop micropolis_hdr 300 sim0) \<in> {0, 16, 24, 32, 40}
   \<and> fst (calcResPop micropolis_hdr 300 sim0) = ((300 - RZB) div 9 mod 4) * 8 + 16
   \<and> fst (calcResPop micropolis_hdr 250 sim0) = 0"
proof -
  have ok: "cache_ok micropolis_hdr sim0" by (rule cache_ok_sim0)
  show ?thesis
    using calcResPop_values [OF ok, of 300] calcResPop_values [OF ok, of 250] ok
    by (simp add: micropolis_hdr_def RZB_def)
qed

section \<open>Frame lemmas: what the helpers leave alone\<close>

lemma calls_addDebugLog [simp]: "calls (addDebugLog m s) = calls s"
  by (simp add: addDebugLog_def)

lemma calls_ZoneRandom [simp]: "calls (snd (ZoneRandom r s)) = calls s"
  by (simp add: ZoneRandom_def)

lemma calls_enter [simp]: "calls (enter c s) = calls s @ [c]"
  by (simp add: enter_def)

lemma calls_setMapTile [simp]: "calls (setMapTile H x y t f s) = calls s"
  by (simp add: setMapTile_def)

lemma Map_addDebugLog [simp]: "Map (addDebugLog m s) = Map s"
  by (simp add: addDebugLog_def)

lemma Map_enter [simp]: "Map (enter c s) = Map s"
  by (simp add: enter_def)

lemma Map_ZoneRandom [simp]: "Map (snd (ZoneRandom r s)) = Map s"
  by (simp add: ZoneRandom_def)


lemma calcResPop_frame:
  "calls (snd (calcResPop H z s)) = calls s \<and> CityTime (snd (calcResPop H z s)) = CityTime s
   \<and> Map (snd (calcResPop H z s)) = Map s"
  by (simp add: calcResPop_def Let_def)

lemma calcIndPop_frame:
  "calls (snd (calcIndPop H z s)) = calls s \<and> CityTime (snd (calcIndPop H z s)) = CityTime s
   \<and> Map (snd (calcIndPop H z s)) = Map s"
  by (simp add: calcIndPop_def Let_def)

lemma Map_sim_at: "Map (sim_at c) 5 5 = c"
  by (simp add: sim_at_def)

lemma Map_sim_at_other: "(y, x) \<noteq> (5, 5) \<Longrightarrow> Map (sim_at c) y x = 0x1000"
  by (auto simp add: sim_at_def sim0_def)

section \<open>Land-value tier (GetCRVal)\<close>

lemma GetCRVal_eq:
  assumes "short_range (LandVal s)" "short_range (LandVal s - PollVal s)"
  shows "GetCRVal x y s = spec_landValueTier (LandVal s - PollVal s)"
proof -
  have a: "sshort (LandVal s) = LandVal s"
    using assms(1) by (simp add: short_range_def sshort_id)
  have b: "sshort (LandVal s - PollVal s) = LandVal s - PollVal s"
    using assms(2) by (simp add: short_range_def sshort_id)
  show ?thesis
    using a b unfolding GetCRVal_def spec_landValueTier_def Let_def LandVal_def PollVal_def
    by simp
qed

lemma spec_landValueTier_mono: "d \<le> d' \<Longrightarrow> spec_landValueTier d \<le> spec_landValueTier d'"
  by (simp add: spec_landValueTier_def)

lemma GetCRVal_range: "GetCRVal x y s \<in> {0, 1, 2, 3}"
  by (simp add: GetCRVal_def Let_def)

lemma GetCRVal_nonneg: "\<not> GetCRVal x y s < 0"
  by (simp add: GetCRVal_def Let_def)

text \<open>
  Claim C5. \<open>GetCRVal\<close> returns 0 when land value minus pollution is below 30, 1 when
  below 80, 2 when below 150 and 3 otherwise; its result is always in {0,1,2,3}, and
  it is monotonic non-decreasing in (value - pollution). The two cells are those at
  the coarse coordinate of the current zone, \<open>(SMapX >> 1, SMapY >> 1)\<close>, which is
  what the function reads whatever its arguments \<open>x\<close> and \<open>y\<close> are. The bucketing
  is stated for a land value and a difference that fit the \<open>short\<close> the function
  computes in; the element type of the two grids is declared in sim.h.
\<close>

theorem GetCRVal_tiers:
  "GetCRVal x y s \<in> {0, 1, 2, 3}
   \<and> (short_range (LandVal s) \<and> short_range (LandVal s - PollVal s) \<longrightarrow>
        GetCRVal x y s = (if LandVal s - PollVal s < 30 then 0
                          else if LandVal s - PollVal s < 80 then 1
                          else if LandVal s - PollVal s < 150 then 2 else 3)
        \<and> GetCRVal x y s = spec_landValueTier (LandVal s - PollVal s))
   \<and> (short_range (LandVal s) \<and> short_range (LandVal s - PollVal s)
        \<and> short_range (LandVal s') \<and> short_range (LandVal s' - PollVal s')
        \<and> LandVal s - PollVal s \<le> LandVal s' - PollVal s' \<longrightarrow>
        GetCRVal x y s \<le> GetCRVal x' y' s')"
proof -
  have "GetCRVal x y s \<le> GetCRVal x' y' s'"
    if "short_range (LandVal s)" "short_range (LandVal s - PollVal s)"
       "short_range (LandVal s')" "short_range (LandVal s' - PollVal s')"
       "LandVal s - PollVal s \<le> LandVal s' - PollVal s'"
    using that by (simp add: GetCRVal_eq spec_landValueTier_mono)
  moreover have "GetCRVal x y s = (if LandVal s - PollVal s < 30 then 0
                          else if LandVal s - PollVal s < 80 then 1
                          else if LandVal s - PollVal s < 150 then 2 else 3)"
    if "short_range (LandVal s)" "short_range (LandVal s - PollVal s)"
    using that GetCRVal_eq [of s x y] by (simp add: spec_landValueTier_def)
  ultimately show ?thesis
    using GetCRVal_range [of x y s] GetCRVal_eq [of s x y] by blast
qed

text \<open>A run with differences 70 and 180: tiers 1 and 3.\<close>

theorem GetCRVal_tiers_witness:
  "short_range (LandVal (sim_lv 100 30)) \<and> short_range (LandVal (sim_lv 100 30) - PollVal (sim_lv 100 30))
   \<and> short_range (LandVal (sim_lv 200 20)) \<and> short_range (LandVal (sim_lv 200 20) - PollVal (sim_lv 200 20))
   \<and> LandVal (sim_lv 100 30) - PollVal (sim_lv 100 30) \<le> LandVal (sim_lv 200 20) - PollVal (sim_lv 200 20)
   \<and> GetCRVal 5 5 (sim_lv 100 30) = 1 \<and> GetCRVal 5 5 (sim_lv 200 20) = 3
   \<and> GetCRVal 5 5 (sim_lv 100 30) \<le> GetCRVal 5 5 (sim_lv 200 20)"
proof -
  have h: "short_range (LandVal (sim_lv 100 30))"
    "short_range (LandVal (sim_lv 100 30) - PollVal (sim_lv 100 30))"
    "short_range (LandVal (sim_lv 200 20))"
    "short_range (LandVal (sim_lv 200 20) - PollVal (sim_lv 200 20))"
    "LandVal (sim_lv 100 30) - PollVal (sim_lv 100 30) = 70"
    "LandVal (sim_lv 200 20) - PollVal (sim_lv 200 20) = 180"
    by (simp_all add: short_range_def LandVal_def PollVal_def sim_lv_def sim0_def)
  show ?thesis
    using GetCRVal_tiers [of 5 5 "sim_lv 100 30" "sim_lv 200 20" 5 5]
      GetCRVal_tiers [of 5 5 "sim_lv 200 20" "sim_lv 200 20" 5 5] h
    by simp
qed

section \<open>Industrial zones neither decline nor grow (DoIndustrial)\<close>

text \<open>
  \<open>DoIndustrial\<close> invokes no handler at all: \<open>GetCRVal\<close> is never negative and
  \<open>EvalInd 1\<close> is 0, which is neither above nor below 0.
\<close>

lemma DoIndustrial_calls: "calls (DoIndustrial H E x y s) = calls s"
proof -
  obtain pop0 s1 where c: "calcIndPop H (tile_code H (Map s y x)) (s\<lparr>Map := SetSmoke E x y s\<rparr>) = (pop0, s1)"
    by (cases "calcIndPop H (tile_code H (Map s y x)) (s\<lparr>Map := SetSmoke E x y s\<rparr>)") 
  have "calls s1 = calls s"
    using calcIndPop_frame [of H "tile_code H (Map s y x)" "s\<lparr>Map := SetSmoke E x y s\<rparr>"] c
    by simp
  then show ?thesis
    unfolding DoIndustrial_def Let_def c
    by (simp add: GetCRVal_nonneg EvalInd_def)
qed

lemma DoIndustrial_Map:
  "Map (DoIndustrial H E x y s) =
     (if Map s y x AND ZONEBIT H = 0 then Map s else SetSmoke E x y s)"
proof -
  obtain pop0 s1 where c: "calcIndPop H (tile_code H (Map s y x)) (s\<lparr>Map := SetSmoke E x y s\<rparr>) = (pop0, s1)"
    by (cases "calcIndPop H (tile_code H (Map s y x)) (s\<lparr>Map := SetSmoke E x y s\<rparr>)")
  have "Map s1 = SetSmoke E x y s"
    using calcIndPop_frame [of H "tile_code H (Map s y x)" "s\<lparr>Map := SetSmoke E x y s\<rparr>"] c
    by simp
  then show ?thesis
    unfolding DoIndustrial_def Let_def c
    by (simp add: GetCRVal_nonneg EvalInd_def)
qed

text \<open>
  Claim C9, as stated, fails in its last part, that a zone processed by
  \<open>DoIndustrial\<close> can grow. A powered industrial zone center (code \<open>IZB\<close>) on an
  8th tick, with traffic generated and a running population below 4, is the case
  in which \<open>DoIndIn\<close> would stamp; \<open>DoIndustrial\<close> invokes no handler there and
  leaves the tile grid as it was. No invocation of \<open>DoIndustrial\<close> whatsoever
  invokes \<open>DoIndIn\<close>.
\<close>

theorem DoIndustrial_cannot_grow_counterexample:
  "Map (sim_at 0x8671) 5 5 AND ZONEBIT micropolis_hdr \<noteq> 0
   \<and> Map (sim_at 0x8671) 5 5 AND POWERBIT micropolis_hdr \<noteq> 0
   \<and> CityTime (sim_at 0x8671) AND 7 = 0
   \<and> sshort (IZPop (sim_at 0x8671)) < 4
   \<and> calls (DoIndustrial micropolis_hdr ext0 5 5 (sim_at 0x8671)) = []
   \<and> Map (DoIndustrial micropolis_hdr ext0 5 5 (sim_at 0x8671)) = Map (sim_at 0x8671)
   \<and> \<not> (\<exists>H E x y s pop v. CallIndIn pop v \<in> set (new_calls s (DoIndustrial H E x y s)))"
proof -
  have "Map (sim_at 0x8671) 5 5 AND ZONEBIT micropolis_hdr \<noteq> 0"
    "Map (sim_at 0x8671) 5 5 AND POWERBIT micropolis_hdr \<noteq> 0"
    "CityTime (sim_at 0x8671) AND 7 = 0"
    "sshort (IZPop (sim_at 0x8671)) < 4"
    "calls (sim_at 0x8671) = []"
    "SetSmoke ext0 5 5 (sim_at 0x8671) = Map (sim_at 0x8671)"
    by (simp_all add: Map_sim_at micropolis_hdr_def sim_at_def sim0_def sshort_def ext0_def)
  moreover have "new_calls s (DoIndustrial H E x y s) = []" for H E x y s
    by (simp add: new_calls_def DoIndustrial_calls)
  ultimately show ?thesis
    by (simp add: DoIndustrial_calls DoIndustrial_Map)
qed

text \<open>
  Claim C9, amended. For every invocation of \<open>DoIndustrial\<close>, the decline handler
  \<open>DoIndOut\<close> is never called, and neither is the growth handler \<open>DoIndIn\<close>:
  \<open>GetCRVal\<close> is never negative and \<open>EvalInd 1\<close> is 0, which is neither below
  nor above 0. An industrial zone processed through \<open>DoIndustrial\<close> neither
  declines nor grows: the tile grid after the call is the one \<open>SetSmoke\<close> left
  (the grid before the call, when the tile lacks the zone-center bit).
\<close>

theorem DoIndustrial_no_transition:
  "calls (DoIndustrial H E x y s) = calls s
   \<and> new_calls s (DoIndustrial H E x y s) = []
   \<and> CallIndOut pop x' y' \<notin> set (new_calls s (DoIndustrial H E x y s))
   \<and> CallIndIn pop' v \<notin> set (new_calls s (DoIndustrial H E x y s))
   \<and> Map (DoIndustrial H E x y s) =
       (if Map s y x AND ZONEBIT H = 0 then Map s else SetSmoke E x y s)"
proof -
  have same: "calls (DoIndustrial H E x y s) = calls s"
    by (rule DoIndustrial_calls)
  then have "new_calls s (DoIndustrial H E x y s) = []"
    by (simp add: new_calls_def)
  with same show ?thesis
    by (simp add: DoIndustrial_Map)
qed

text \<open>A powered industrial zone center on an 8th tick.\<close>

theorem DoIndustrial_no_transition_witness:
  "Map (sim_at 0x8671) 5 5 AND ZONEBIT micropolis_hdr \<noteq> 0
   \<and> CityTime (sim_at 0x8671) AND 7 = 0
   \<and> CallIndOut 0 5 5
       \<notin> set (new_calls (sim_at 0x8671) (DoIndustrial micropolis_hdr ext0 5 5 (sim_at 0x8671)))
   \<and> CallIndIn 0 0
       \<notin> set (new_calls (sim_at 0x8671) (DoIndustrial micropolis_hdr ext0 5 5 (sim_at 0x8671)))
   \<and> Map (DoIndustrial micropolis_hdr ext0 5 5 (sim_at 0x8671)) = Map (sim_at 0x8671)"
proof -
  have "Map (sim_at 0x8671) 5 5 AND ZONEBIT micropolis_hdr \<noteq> 0"
    "CityTime (sim_at 0x8671) AND 7 = 0"
    "SetSmoke ext0 5 5 (sim_at 0x8671) = Map (sim_at 0x8671)"
    by (simp_all add: Map_sim_at micropolis_hdr_def sim_at_def sim0_def ext0_def)
  then show ?thesis
    using DoIndustrial_no_transition [of micropolis_hdr ext0 5 5 "sim_at 0x8671" 0 5 5 0 0]
    by simp
qed

section \<open>Unpowered residential zones decline (DoResidential)\<close>

lemma DoResOut_step_calls [simp]: "calls (DoResOut_step H E t x y m s) = calls s"
  by (simp add: DoResOut_step_def Let_def)

lemma DoResOut_calls:
  "calls (DoResOut H E pop v x y s) = calls s @ [CallResOut pop v x y]"
  by (simp add: DoResOut_def ZoneRandom_def Let_def)

lemma corruption_check_calls [simp]: "calls (corruption_check H m t x y s) = calls s"
  by (simp add: corruption_check_def Let_def)

text \<open>
  Claim C1. When \<open>DoResidential\<close> processes a zone-center tile on an 8th tick
  (\<open>CityTime & 7 = 0\<close>) and the tile's powered flag is clear, it routes to the decline
  handler: what it returns is the result of \<open>DoResOut\<close>, run with the running
  population saved on entry and the desirability -500 on the state reached after
  census and traffic, followed only by the check that logs a tile turned into a
  road. This holds whatever the land value and pollution are. \<open>DoResOut\<close> is the
  one handler invoked; \<open>DoResIn\<close> is not invoked.
\<close>

theorem DoResidential_unpowered_declines:
  assumes "Map s y x AND ZONEBIT H \<noteq> 0"
    and "Map s y x AND POWERBIT H = 0"
    and "CityTime s AND 7 = 0"
  shows "DoResidential H E x y s =
           corruption_check H
             ''CORRUPTION: Unpowered res zone at %d,%d changed from %d to road %d (month=%d)''
             (sshort (tile_code H (Map (res_census H E x y s) y x))) x y
             (DoResOut H E (sshort (RZPop s)) (-500) x y (res_census H E x y s))
       \<and> calls (DoResidential H E x y s) = calls s @ [CallResOut (sshort (RZPop s)) (-500) x y]
       \<and> CallResIn p v \<notin> set (new_calls s (DoResidential H E x y s))"
proof -
  obtain pop0 s1 where c: "calcResPop H (sshort (tile_code H (Map s y x))) s = (pop0, s1)"
    by (cases "calcResPop H (sshort (tile_code H (Map s y x))) s")
  have f: "calls s1 = calls s" "CityTime s1 = CityTime s"
    using calcResPop_frame [of H "sshort (tile_code H (Map s y x))" s] c by simp_all
  have st: "DoResidential H E x y s =
           corruption_check H
             ''CORRUPTION: Unpowered res zone at %d,%d changed from %d to road %d (month=%d)''
             (sshort (tile_code H (Map (res_census H E x y s) y x))) x y
             (DoResOut H E (sshort (RZPop s)) (-500) x y (res_census H E x y s))"
    unfolding DoResidential_def res_census_def Let_def c
    using assms f by (simp add: GetCRVal_nonneg)
  have tr: "calls (DoResidential H E x y s) = calls s @ [CallResOut (sshort (RZPop s)) (-500) x y]"
    unfolding DoResidential_def Let_def c
    using assms f by (simp add: GetCRVal_nonneg DoResOut_calls)
  then have "CallResIn p v \<notin> set (new_calls s (DoResidential H E x y s))"
    by (simp add: new_calls_def)
  with st tr show ?thesis
    by blast
qed

text \<open>An unpowered residential center with code \<open>RZB\<close> at tick 0.\<close>

theorem DoResidential_unpowered_declines_witness:
  "Map (sim_at 0x0509) 5 5 AND ZONEBIT micropolis_hdr \<noteq> 0
   \<and> Map (sim_at 0x0509) 5 5 AND POWERBIT micropolis_hdr = 0
   \<and> CityTime (sim_at 0x0509) AND 7 = 0
   \<and> calls (DoResidential micropolis_hdr ext0 5 5 (sim_at 0x0509)) = [CallResOut 0 (-500) 5 5]"
proof -
  have h: "Map (sim_at 0x0509) 5 5 AND ZONEBIT micropolis_hdr \<noteq> 0"
    "Map (sim_at 0x0509) 5 5 AND POWERBIT micropolis_hdr = 0"
    "CityTime (sim_at 0x0509) AND 7 = 0"
    "calls (sim_at 0x0509) = []" "sshort (RZPop (sim_at 0x0509)) = 0"
    by (simp_all add: Map_sim_at micropolis_hdr_def sim_at_def sim0_def sshort_def)
  have "calls (DoResidential micropolis_hdr ext0 5 5 (sim_at 0x0509))
        = calls (sim_at 0x0509) @ [CallResOut (sshort (RZPop (sim_at 0x0509))) (-500) 5 5]"
    using DoResidential_unpowered_declines [OF h(1,2,3), of ext0 0 0] by blast
  with h show ?thesis
    by simp
qed

section \<open>Police and fire stations (DoSPZ)\<close>

lemma station_effect_spec:
  "station_effect H E b x y s =
     spec_station_effect b (Map s y x AND POWERBIT H \<noteq> 0) (FindPRoad E s \<noteq> 0)"
  by (simp add: station_effect_def spec_station_effect_def Let_def drop_bit_eq_div)

lemma DoSPZ_police:
  assumes "Map s y x AND ZONEBIT H \<noteq> 0" "CityTime s AND 15 = 0"
    "sshort (tile_code H (Map s y x)) = POLICESTATION H"
    "POLICESTATION H \<noteq> POWERPLANT H" "POLICESTATION H \<noteq> STADIUM H"
    "POLICESTATION H \<noteq> NUCLEAR H"
    "PoliceCell H (station_effect H E (PoliceEffect s) x y s) = station_effect H E (PoliceEffect s) x y s"
    "PoliceCell H 250 = 250"
  shows "PoliceMap (DoSPZ H E x y s) (drop_bit 2 y) (drop_bit 2 x)
         = min (station_effect H E (PoliceEffect s) x y s) 250"
  using assms unfolding DoSPZ_def Let_def
  by (simp add: addDebugLog_def)

lemma DoSPZ_fire:
  assumes "Map s y x AND ZONEBIT H \<noteq> 0" "CityTime s AND 15 = 0"
    "sshort (tile_code H (Map s y x)) = FIRESTATION H"
    "FIRESTATION H \<noteq> POWERPLANT H" "FIRESTATION H \<noteq> STADIUM H"
    "FIRESTATION H \<noteq> NUCLEAR H" "FIRESTATION H \<noteq> POLICESTATION H"
    "PoliceCell H (station_effect H E (FireEffect s) x y s) = station_effect H E (FireEffect s) x y s"
    "PoliceCell H 250 = 250"
  shows "FireStMap (DoSPZ H E x y s) (drop_bit 2 y) (drop_bit 2 x)
         = min (station_effect H E (FireEffect s) x y s) 250"
  using assms unfolding DoSPZ_def Let_def
  by simp

text \<open>
  Claim C8. When a police-station center tile is processed on a 16th tick
  (\<open>CityTime & 15 = 0\<close>), the cell \<open>PoliceMap[y >> 2][x >> 2]\<close> is left equal to
  \<open>min effect 250\<close>, where \<open>effect\<close> is \<open>PoliceEffect\<close>, halved if the tile is
  unpowered and halved again if \<open>FindPRoad\<close> fails; for a powered station with
  road access it is \<open>min PoliceEffect 250\<close>. The right-hand sides do not mention the
  cell's previous content: the value is overwritten, not accumulated. The same holds
  for fire stations with \<open>FireEffect\<close> and \<open>FireStMap\<close>. The station's tile code
  differs from the codes the earlier branches of \<open>DoSPZ\<close> test for, and the effect
  and 250 are values the grid's element type holds unchanged.
\<close>

theorem DoSPZ_station_influence:
  assumes "Map s y x AND ZONEBIT H \<noteq> 0" and "CityTime s AND 15 = 0"
    and "PoliceCell H 250 = 250"
  shows
  "(sshort (tile_code H (Map s y x)) = POLICESTATION H
      \<and> POLICESTATION H \<notin> {POWERPLANT H, STADIUM H, NUCLEAR H}
      \<and> PoliceCell H (spec_station_effect (PoliceEffect s)
            (Map s y x AND POWERBIT H \<noteq> 0) (FindPRoad E s \<noteq> 0))
          = spec_station_effect (PoliceEffect s)
            (Map s y x AND POWERBIT H \<noteq> 0) (FindPRoad E s \<noteq> 0)
     \<longrightarrow> PoliceMap (DoSPZ H E x y s) (drop_bit 2 y) (drop_bit 2 x)
          = min (spec_station_effect (PoliceEffect s)
                  (Map s y x AND POWERBIT H \<noteq> 0) (FindPRoad E s \<noteq> 0)) 250)
   \<and> (sshort (tile_code H (Map s y x)) = POLICESTATION H
      \<and> POLICESTATION H \<notin> {POWERPLANT H, STADIUM H, NUCLEAR H}
      \<and> Map s y x AND POWERBIT H \<noteq> 0 \<and> FindPRoad E s \<noteq> 0
      \<and> PoliceCell H (PoliceEffect s) = PoliceEffect s
     \<longrightarrow> PoliceMap (DoSPZ H E x y s) (drop_bit 2 y) (drop_bit 2 x) = min (PoliceEffect s) 250)
   \<and> (sshort (tile_code H (Map s y x)) = FIRESTATION H
      \<and> FIRESTATION H \<notin> {POWERPLANT H, STADIUM H, NUCLEAR H, POLICESTATION H}
      \<and> PoliceCell H (spec_station_effect (FireEffect s)
            (Map s y x AND POWERBIT H \<noteq> 0) (FindPRoad E s \<noteq> 0))
          = spec_station_effect (FireEffect s)
            (Map s y x AND POWERBIT H \<noteq> 0) (FindPRoad E s \<noteq> 0)
     \<longrightarrow> FireStMap (DoSPZ H E x y s) (drop_bit 2 y) (drop_bit 2 x)
          = min (spec_station_effect (FireEffect s)
                  (Map s y x AND POWERBIT H \<noteq> 0) (FindPRoad E s \<noteq> 0)) 250)
   \<and> (sshort (tile_code H (Map s y x)) = FIRESTATION H
      \<and> FIRESTATION H \<notin> {POWERPLANT H, STADIUM H, NUCLEAR H, POLICESTATION H}
      \<and> Map s y x AND POWERBIT H \<noteq> 0 \<and> FindPRoad E s \<noteq> 0
      \<and> PoliceCell H (FireEffect s) = FireEffect s
     \<longrightarrow> FireStMap (DoSPZ H E x y s) (drop_bit 2 y) (drop_bit 2 x) = min (FireEffect s) 250)"
proof -
  have p: "PoliceMap (DoSPZ H E x y s) (drop_bit 2 y) (drop_bit 2 x)
          = min (spec_station_effect (PoliceEffect s)
                  (Map s y x AND POWERBIT H \<noteq> 0) (FindPRoad E s \<noteq> 0)) 250"
    if "sshort (tile_code H (Map s y x)) = POLICESTATION H"
      "POLICESTATION H \<notin> {POWERPLANT H, STADIUM H, NUCLEAR H}"
      "PoliceCell H (spec_station_effect (PoliceEffect s)
            (Map s y x AND POWERBIT H \<noteq> 0) (FindPRoad E s \<noteq> 0))
          = spec_station_effect (PoliceEffect s)
            (Map s y x AND POWERBIT H \<noteq> 0) (FindPRoad E s \<noteq> 0)"
    using DoSPZ_police [of s y x H E] assms that
    by (simp add: station_effect_spec)
  have f: "FireStMap (DoSPZ H E x y s) (drop_bit 2 y) (drop_bit 2 x)
          = min (spec_station_effect (FireEffect s)
                  (Map s y x AND POWERBIT H \<noteq> 0) (FindPRoad E s \<noteq> 0)) 250"
    if "sshort (tile_code H (Map s y x)) = FIRESTATION H"
      "FIRESTATION H \<notin> {POWERPLANT H, STADIUM H, NUCLEAR H, POLICESTATION H}"
      "PoliceCell H (spec_station_effect (FireEffect s)
            (Map s y x AND POWERBIT H \<noteq> 0) (FindPRoad E s \<noteq> 0))
          = spec_station_effect (FireEffect s)
            (Map s y x AND POWERBIT H \<noteq> 0) (FindPRoad E s \<noteq> 0)"
    using DoSPZ_fire [of s y x H E] assms that
    by (simp add: station_effect_spec)
  have t: "spec_station_effect b True True = b" for b
    by (simp add: spec_station_effect_def)
  show ?thesis
    using p f by (auto simp add: t)
qed

text \<open>
  A powered police station with effect 1000 (cell 250), an unpowered one with
  effect 300 over a cell that held 77 (cell 150), and a powered fire station.
\<close>

theorem DoSPZ_station_influence_witness:
  "PoliceMap (DoSPZ micropolis_hdr ext0 5 5 (sim_at 0x8706)) 1 1 = 250
   \<and> PoliceMap (DoSPZ micropolis_hdr ext0 5 5 police_unpowered) 1 1 = 150
   \<and> FireStMap (DoSPZ micropolis_hdr ext0 5 5 (sim_at 0x86FD)) 1 1 = 250"
proof -
  have d: "drop_bit 2 (5::int) = 1"
    by (simp add: drop_bit_eq_div)
  have c: "PoliceCell micropolis_hdr 250 = 250" "PoliceCell micropolis_hdr 1000 = 1000"
    "PoliceCell micropolis_hdr 150 = 150"
    by (simp_all add: micropolis_hdr_def sshort_def)
  have k: "POLICESTATION micropolis_hdr \<notin>
        {POWERPLANT micropolis_hdr, STADIUM micropolis_hdr, NUCLEAR micropolis_hdr}"
    "FIRESTATION micropolis_hdr \<notin>
        {POWERPLANT micropolis_hdr, STADIUM micropolis_hdr, NUCLEAR micropolis_hdr,
         POLICESTATION micropolis_hdr}"
    by (simp_all add: micropolis_hdr_def)
  have a: "Map (sim_at 0x8706) 5 5 AND ZONEBIT micropolis_hdr \<noteq> 0"
    "CityTime (sim_at 0x8706) AND 15 = 0"
    "sshort (tile_code micropolis_hdr (Map (sim_at 0x8706) 5 5)) = POLICESTATION micropolis_hdr"
    "Map (sim_at 0x8706) 5 5 AND POWERBIT micropolis_hdr \<noteq> 0"
    "FindPRoad ext0 (sim_at 0x8706) \<noteq> 0" "PoliceEffect (sim_at 0x8706) = 1000"
    by (simp_all add: Map_sim_at micropolis_hdr_def sim_at_def sim0_def tile_code_def sshort_def ext0_def)
  have b: "Map police_unpowered 5 5 AND ZONEBIT micropolis_hdr \<noteq> 0"
    "CityTime police_unpowered AND 15 = 0"
    "sshort (tile_code micropolis_hdr (Map police_unpowered 5 5)) = POLICESTATION micropolis_hdr"
    "spec_station_effect (PoliceEffect police_unpowered)
        (Map police_unpowered 5 5 AND POWERBIT micropolis_hdr \<noteq> 0)
        (FindPRoad ext0 police_unpowered \<noteq> 0) = 150"
    by (simp_all add: police_unpowered_def micropolis_hdr_def sim_at_def sim0_def tile_code_def
        sshort_def ext0_def spec_station_effect_def)
  have e: "Map (sim_at 0x86FD) 5 5 AND ZONEBIT micropolis_hdr \<noteq> 0"
    "CityTime (sim_at 0x86FD) AND 15 = 0"
    "sshort (tile_code micropolis_hdr (Map (sim_at 0x86FD) 5 5)) = FIRESTATION micropolis_hdr"
    "Map (sim_at 0x86FD) 5 5 AND POWERBIT micropolis_hdr \<noteq> 0"
    "FindPRoad ext0 (sim_at 0x86FD) \<noteq> 0" "FireEffect (sim_at 0x86FD) = 1000"
    by (simp_all add: Map_sim_at micropolis_hdr_def sim_at_def sim0_def tile_code_def sshort_def ext0_def)
  show ?thesis
    using DoSPZ_station_influence [OF a(1,2) c(1), of ext0]
      DoSPZ_station_influence [OF b(1,2) c(1), of ext0]
      DoSPZ_station_influence [OF e(1,2) c(1), of ext0]
      a b c d e k
    by simp
qed

section \<open>The stamper (ZonePlop)\<close>






lemma calls_ZonePlop_cell [simp]: "calls (ZonePlop_cell H xpos ypos base d s) = calls s"
  by (simp add: ZonePlop_cell_def Let_def ZoneRandom_def)

lemma calls_ZonePlop_fold [simp]:
  "calls (fold (ZonePlop_cell H xpos ypos base) ds s) = calls s"
  by (induction ds arbitrary: s) simp_all







section \<open>Residential encode-and-stamp (ResPlop)\<close>






section \<open>House building (DoResIn, BuildHouse)\<close>

lemma Map_BuildHouse [simp]: "Map (BuildHouse H x y v s) = Map s"
  by (simp add: BuildHouse_def Let_def)

lemma calls_BuildHouse [simp]: "calls (BuildHouse H x y v s) = calls s @ [CallBuildHouse x y v]"
  by (simp add: BuildHouse_def Let_def)

lemma DoResIn_builds_nothing:
  assumes "tile_code H (Map s (SMapY s) (SMapX s)) = FREEZ H" "pop < 8"
  shows "Map (DoResIn H pop v s) = Map s"
  using assms by (simp add: DoResIn_def Let_def IncROG_def enter_def)

text \<open>
  Claim C4 against the code. \<open>DoResIn\<close> on a bare zone-center placeholder
  (\<open>FREEZ\<close>) with population 0, pollution 0 and eight empty, bulldozable
  neighbours (each scored 1 by \<open>EvalLot\<close>) reaches \<open>BuildHouse\<close> and returns with
  the tile grid as it was: no cell becomes a house.
\<close>

theorem DoResIn_house_not_built:
  "tile_code micropolis_hdr (Map (sim_at 0x14F4) (SMapY (sim_at 0x14F4)) (SMapX (sim_at 0x14F4)))
     = FREEZ micropolis_hdr
   \<and> PollutionMem (sim_at 0x14F4) 2 2 = 0
   \<and> EvalLot micropolis_hdr 4 4 (sim_at 0x14F4) = 1
   \<and> Map (DoResIn micropolis_hdr 0 2 (sim_at 0x14F4)) = Map (sim_at 0x14F4)
   \<and> calls (DoResIn micropolis_hdr 0 2 (sim_at 0x14F4)) = [CallResIn 0 2, CallBuildHouse 5 5 2]"
  by (simp add: DoResIn_def Let_def IncROG_def EvalLot_def tile_code_def micropolis_hdr_def
      sim_at_def sim0_def sshort_def enter_def drop_bit_eq_div RESBASE_def)

section \<open>Decline handlers on tiles that are not zone centers\<close>

text \<open>
  \<open>DoResOut\<close> checks the zone-center bit and the divisibility of the code before
  it touches the grid.
\<close>

lemma DoResOut_invalid_center:
  assumes "Map s y x AND ZONEBIT H = 0 \<or> cmod (sshort (tile_code H (Map s y x)) - RZB) 9 \<noteq> 0"
  shows "Map (DoResOut H E pop v x y s) = Map s"
  using assms by (auto simp add: DoResOut_def Let_def)

text \<open>
  Claim C6 against the code. \<open>DoIndOut\<close> and \<open>DoComOut\<close> make neither check.
  At a cell without the zone-center bit whose code is \<open>INDBASE + 1\<close> (not a center
  code: \<open>(613 - IZB) % 9 = -3\<close>), with the next \<open>rand()\<close> a multiple of 8,
  \<open>DoIndOut\<close> rewrites the cell from 0x1265 to 0x1264; at a cell with code
  \<open>COMBASE + 1\<close> (\<open>(424 - CZB) % 9 = -3\<close>), \<open>DoComOut\<close> calls \<open>UpgradeTile\<close>
  with code 423. Such a cell is what \<open>DoComOut\<close> itself leaves behind when it
  lowers the code of a center by one.
\<close>

theorem DoIndOut_rewrites_non_center:
  "Map (sim_at 0x1265) 5 5 AND ZONEBIT micropolis_hdr = 0
   \<and> tile_code micropolis_hdr (Map (sim_at 0x1265) 5 5) = INDBASE micropolis_hdr + 1
   \<and> cmod (tile_code micropolis_hdr (Map (sim_at 0x1265) 5 5) - IZB) 9 = -3
   \<and> Map (DoIndOut micropolis_hdr 0 5 5 (sim_at 0x1265)) 5 5 = 0x1264
   \<and> cmod (tile_code micropolis_hdr (Map (sim_at 0x15A8) 5 5) - CZB) 9 = -3
   \<and> Map (DoComOut micropolis_hdr E 0 5 5 (sim_at 0x15A8)) =
       UpgradeTile E 5 5 423
         ((sim_at 0x15A8)\<lparr>rand_pos := 1, calls := [CallComOut 0 5 5]\<rparr>)"
  by (simp add: DoIndOut_def DoComOut_def Let_def ZoneRandom_def setMapTile_def BOUNDS_CHECK_def
      tile_code_def micropolis_hdr_def sim_at_def sim0_def sshort_def enter_def cmod_def cdiv_def
      IZB_def CZB_def)

end
